theory Spec2Isabelle
  imports Complex_Main "HOL-Library.Sublist"
begin

section \<open>Go library functions called by the Prometheus metrics client\<close>

text \<open>
  A Go \<^verbatim>\<open>string\<close> is a sequence of bytes, here a \<^typ>\<open>string\<close> (a list of 8-bit
  characters). The client calls \<^verbatim>\<open>fmt.Sprintf\<close>, \<^verbatim>\<open>strings.Split\<close>,
  \<^verbatim>\<open>strings.TrimSpace\<close> and \<^verbatim>\<open>strconv.ParseFloat\<close>; the first three are
  modelled on bytes as the Go library computes them.
\<close>

subsection \<open>fmt.Sprintf\<close>

text \<open>
  \<^verbatim>\<open>fmt.Sprintf\<close> for the verb \<^verbatim>\<open>%s\<close> with string operands, the only verb of the
  client's query format. A verb with no operand left prints \<^verbatim>\<open>%!s(MISSING)\<close>; every
  other byte of the format is copied.
\<close>

fun Sprintf :: "string \<Rightarrow> string list \<Rightarrow> string" where
  "Sprintf [] args = []"
| "Sprintf [c] args = [c]"
| "Sprintf (c # d # fs) args =
     (if c = CHR ''%'' \<and> d = CHR ''s''
      then (case args of
              [] \<Rightarrow> ''%!s(MISSING)'' @ Sprintf fs []
            | a # as \<Rightarrow> a @ Sprintf fs as)
      else c # Sprintf (d # fs) args)"

subsection \<open>strings.Index and strings.Split\<close>

text \<open>
  \<^verbatim>\<open>strings.Index(s, sep)\<close>: the position of the first occurrence of \<^verbatim>\<open>sep\<close> in
  \<^verbatim>\<open>s\<close>; Go's \<^verbatim>\<open>-1\<close> is \<open>None\<close>.
\<close>

fun Index :: "string \<Rightarrow> string \<Rightarrow> nat option" where
  "Index [] sep = (if sep = [] then Some 0 else None)"
| "Index (c # cs) sep =
     (if prefix sep (c # cs) then Some 0 else map_option Suc (Index cs sep))"

text \<open>
  \<^verbatim>\<open>strings.Split(s, sep)\<close> (\<^verbatim>\<open>genSplit\<close> with no limit): cut \<^verbatim>\<open>s\<close> at each
  occurrence of \<^verbatim>\<open>sep\<close> found by \<^verbatim>\<open>Index\<close>, left to right; the last piece is what
  remains. With an empty separator Go explodes the string into its UTF-8 sequences
  (here: its bytes); the client passes only the non-empty separators newline,
  \<^verbatim>\<open>=>\<close> and space.
\<close>

function Split :: "string \<Rightarrow> string \<Rightarrow> string list" where
  "Split s sep =
     (if sep = [] then map (\<lambda>c. [c]) s
      else (case Index s sep of
              None \<Rightarrow> [s]
            | Some m \<Rightarrow> take m s # Split (drop (m + length sep) s) sep))"
  by pat_completeness auto
termination
proof (relation "measure (\<lambda>(s, sep). length s)")
  show "wf (measure (\<lambda>(s, sep). length s))" by simp
next
  fix s sep :: string and m
  assume sep: "sep \<noteq> []" and found: "Index s sep = Some m"
  have bound: "Index t sep = Some k \<Longrightarrow> k + length sep \<le> length t" for t k
  proof (induction t arbitrary: k)
    case Nil
    then show ?case by (simp split: if_splits)
  next
    case (Cons c cs)
    show ?case
    proof (cases "prefix sep (c # cs)")
      case True
      with Cons.prems have "k = 0" by simp
      with prefix_length_le [OF True] show ?thesis by simp
    next
      case False
      with Cons.prems obtain j where "Index cs sep = Some j" "k = Suc j" by auto
      with Cons.IH show ?thesis by fastforce
    qed
  qed
  from sep have "length sep \<noteq> 0" by simp
  with bound [OF found] have "length s - (m + length sep) < length s" by arith
  then show "((drop (m + length sep) s, sep), (s, sep)) \<in> measure (\<lambda>(s, sep). length s)"
    by simp
qed

declare Split.simps [simp del]

subsection \<open>strings.TrimSpace\<close>

text \<open>
  \<^verbatim>\<open>strings.TrimSpace\<close> removes the leading and the trailing white space of a string,
  as Unicode defines it. On the bytes of the string, a white-space code point is one
  of the following UTF-8 sequences: the six ASCII bytes tab, newline, vertical tab,
  form feed, carriage return and space, U+0085 and U+00A0 (two bytes), U+1680,
  U+2000 to U+200A, U+2028, U+2029, U+202F, U+205F and U+3000 (three bytes). No
  sequence is a prefix or a suffix of another, so decoding forwards (or backwards) from
  an end of the string meets a white-space code point exactly where one of the
  sequences starts (or ends) there.
\<close>

definition asciiSpace :: "char list" where
  "asciiSpace = [CHR 0x09, CHR 0x0A, CHR 0x0B, CHR 0x0C, CHR 0x0D, CHR 0x20]"

definition unicodeSpace :: "string list" where
  "unicodeSpace =
     [[CHR 0xC2, CHR 0x85], [CHR 0xC2, CHR 0xA0], [CHR 0xE1, CHR 0x9A, CHR 0x80]] @
     map (\<lambda>b. [CHR 0xE2, CHR 0x80, b])
       [CHR 0x80, CHR 0x81, CHR 0x82, CHR 0x83, CHR 0x84, CHR 0x85, CHR 0x86, CHR 0x87,
        CHR 0x88, CHR 0x89, CHR 0x8A, CHR 0xA8, CHR 0xA9, CHR 0xAF] @
     [[CHR 0xE2, CHR 0x81, CHR 0x9F], [CHR 0xE3, CHR 0x80, CHR 0x80]]"

definition spaceSeqs :: "string list" where
  "spaceSeqs = map (\<lambda>c. [c]) asciiSpace @ unicodeSpace"

text \<open>
  \<open>trimPrefix ws s\<close> drops from the front of \<open>s\<close> every leading occurrence of a
  sequence of \<open>ws\<close>, one after the other, until none starts the rest.
\<close>

function trimPrefix :: "string list \<Rightarrow> string \<Rightarrow> string" where
  "trimPrefix ws s =
     (case filter (\<lambda>w. w \<noteq> [] \<and> prefix w s) ws of
        [] \<Rightarrow> s
      | w # _ \<Rightarrow> trimPrefix ws (drop (length w) s))"
  by pat_completeness auto
termination
proof (relation "measure (\<lambda>(ws, s). length s)")
  show "wf (measure (\<lambda>(ws, s). length s))" by simp
next
  fix ws :: "string list" and s w :: string and rest
  assume "filter (\<lambda>w. w \<noteq> [] \<and> prefix w s) ws = w # rest"
  then have "w \<in> set (filter (\<lambda>w. w \<noteq> [] \<and> prefix w s) ws)" by simp
  then have "w \<noteq> []" and "prefix w s" by simp_all
  then have "length w \<noteq> 0" and "length w \<le> length s"
    by (simp_all add: prefix_length_le)
  then have "length s - length w < length s" by arith
  then show "((ws, drop (length w) s), (ws, s)) \<in> measure (\<lambda>(ws, s). length s)"
    by simp
qed

declare trimPrefix.simps [simp del]

definition TrimLeftSpace :: "string \<Rightarrow> string" where
  "TrimLeftSpace s = trimPrefix spaceSeqs s"

definition TrimRightSpace :: "string \<Rightarrow> string" where
  "TrimRightSpace s = rev (trimPrefix (map rev spaceSeqs) (rev s))"

definition TrimSpace :: "string \<Rightarrow> string" where
  "TrimSpace s = TrimRightSpace (TrimLeftSpace s)"

subsection \<open>strconv.ParseFloat\<close>

text \<open>
  A Go \<^verbatim>\<open>error\<close> value is its message; \<open>None\<close> is the \<^verbatim>\<open>nil\<close> error.
\<close>

type_synonym error = string

text \<open>
  The floating-point numbers are a type \<open>'f\<close> with a zero, and the grammar of
  \<^verbatim>\<open>strconv.ParseFloat\<close> is a parameter \<open>syntax\<close> that classifies a token: a
  well-formed number with its value, a syntax error, or a well-formed number out of
  range with the infinity that stands for it. \<open>ParseFloat\<close> turns the class into the
  pair that Go returns: the value and no error, zero and \<^verbatim>\<open>ErrSyntax\<close>, or the infinity
  and \<^verbatim>\<open>ErrRange\<close>.
\<close>

datatype 'f parsed = Parsed 'f | ErrSyntax | ErrRange 'f

definition ParseFloat :: "(string \<Rightarrow> 'f parsed) \<Rightarrow> string \<Rightarrow> ('f::zero) \<times> error option" where
  "ParseFloat syntax s =
     (case syntax s of
        Parsed f \<Rightarrow> (f, None)
      | ErrSyntax \<Rightarrow> (0, Some ''invalid syntax'')
      | ErrRange f \<Rightarrow> (f, Some ''value out of range''))"

section \<open>Data model\<close>

text \<open>
  Modelled from the spec: the declaration of \<^verbatim>\<open>NodeMetrics\<close> is in another file of the
  package; it is a result record with two floating-point fields, CPU usage and memory
  usage, both zero when unavailable. The field names are those the client assigns.
\<close>

record 'f NodeMetrics =
  Cpu :: 'f
  Memory :: 'f

record PrometheusMetricsClient =
  address :: string
  conf :: "string \<rightharpoonup> string"

text \<open>The configuration handed to \<^verbatim>\<open>api.NewClient\<close>, with the fields the client sets.\<close>

record tls_Config =
  InsecureSkipVerify :: bool

record http_Transport =
  TLSClientConfig :: tls_Config

record api_Config =
  Address :: string
  RoundTripper :: http_Transport

text \<open>
  A query result \<^verbatim>\<open>pmodel.Value\<close> is an interface; the client observes its
  \<^verbatim>\<open>Type()\<close> and its \<^verbatim>\<open>String()\<close> only. \<^verbatim>\<open>v1api.Query\<close> returns a result
  (\<open>None\<close> is \<^verbatim>\<open>nil\<close>), the warnings and an error. The record does not tie the
  rendering to the type; where a statement is about the rendering of a vector of
  samples, it says so with \<open>joinRows\<close> and \<open>sampleRow\<close> below.
\<close>

datatype ValueType = ValNone | ValScalar | ValVector | ValMatrix | ValString

record Value =
  Type :: ValueType
  String :: string

record QueryResult =
  res :: "Value option"
  warnings :: "string list"
  err :: "error option"

text \<open>The lines written to the log, one constructor for each \<^verbatim>\<open>klog\<close> call.\<close>

datatype LogLine =
  InfoGetNodeMetrics string
| InfoQueryBy string
| ErrorQuerying error
| InfoWarningQuerying "string list"
| WarningNoDataFound string

text \<open>A run-time panic of Go: an index out of range, with the index and the length.\<close>

datatype panic = IndexOutOfRange nat nat

definition index :: "'a list \<Rightarrow> nat \<Rightarrow> panic + 'a" where
  "index xs i = (if i < length xs then Inr (xs ! i) else Inl (IndexOutOfRange i (length xs)))"

text \<open>Reading a Go map: a key that is absent reads as the empty string.\<close>

definition lookup :: "(string \<rightharpoonup> string) \<Rightarrow> string \<Rightarrow> string" where
  "lookup m k = (case m k of None \<Rightarrow> [] | Some v \<Rightarrow> v)"

section \<open>The client\<close>

definition promCpuUsageAvg :: string where
  "promCpuUsageAvg = ''cpu_usage_avg''"

definition promMemUsageAvg :: string where
  "promMemUsageAvg = ''mem_usage_avg''"

definition NewPrometheusMetricsClient ::
  "string \<Rightarrow> (string \<rightharpoonup> string) \<Rightarrow> PrometheusMetricsClient \<times> error option" where
  "NewPrometheusMetricsClient a c = (\<lparr>address = a, conf = c\<rparr>, None)"

definition queryStr :: "string \<Rightarrow> string \<Rightarrow> string \<Rightarrow> string" where
  "queryStr metric period nodeName =
     Sprintf ''%s_%s{instance=\"%s\"}'' [metric, period, nodeName]"

text \<open>
  The configuration of the backend client, as \<^verbatim>\<open>NodeMetricsAvg\<close> builds it for
  \<^verbatim>\<open>api.NewClient\<close>: the address of the client and a transport whose TLS
  configuration skips the verification of certificates when the option
  \<^verbatim>\<open>tls.insecureSkipVerify\<close> reads \<^verbatim>\<open>true\<close>.
\<close>

definition apiConfig :: "PrometheusMetricsClient \<Rightarrow> api_Config" where
  "apiConfig p =
     (let insecureSkipVerify = (lookup (conf p) ''tls.insecureSkipVerify'' = ''true'');
          tr = \<lparr>TLSClientConfig = \<lparr>InsecureSkipVerify = insecureSkipVerify\<rparr>\<rparr>
      in \<lparr>Address = address p, RoundTripper = tr\<rparr>)"

text \<open>
  The three splits of the rendering of a vector: the first line, its pieces around
  \<^verbatim>\<open>=>\<close>, and the pieces of the second of them around a space. Every index is
  checked, as Go checks it.
\<close>

definition rowValue :: "string \<Rightarrow> panic + string list" where
  "rowValue str =
     (case index (Split str ''\<newline>'') 0 of
        Inl pn \<Rightarrow> Inl pn
      | Inr firstRowValVector \<Rightarrow>
          (let rowValues = Split (TrimSpace firstRowValVector) ''=>''
           in case index rowValues 1 of
                Inl pn \<Rightarrow> Inl pn
              | Inr r \<Rightarrow> Inr (Split (TrimSpace r) '' '')))"

text \<open>The state of a call: the record under construction and the log so far.\<close>

record 'f state =
  nodeMetrics :: "'f NodeMetrics"
  logs :: "LogLine list"

definition logf :: "LogLine \<Rightarrow> 'f state \<Rightarrow> 'f state" where
  "logf l s = s\<lparr>logs := logs s @ [l]\<rparr>"

text \<open>
  One iteration of the loop over the two metrics. \<open>Query\<close> is \<^verbatim>\<open>v1api.Query\<close> on
  the client of the call, with its context and the time of the call.
\<close>

definition loopBody ::
  "(string \<Rightarrow> QueryResult) \<Rightarrow> (string \<Rightarrow> 'f parsed) \<Rightarrow> string \<Rightarrow> string \<Rightarrow> string \<Rightarrow>
     ('f::zero) state \<Rightarrow> panic + 'f state" where
  "loopBody Query syntax nodeName period metric s =
     (let q = queryStr metric period nodeName;
          s1 = logf (InfoQueryBy q) s;
          r = Query q;
          s2 = (case err r of None \<Rightarrow> s1 | Some e \<Rightarrow> logf (ErrorQuerying e) s1);
          s3 = (if length (warnings r) > 0 then logf (InfoWarningQuerying (warnings r)) s2
                else s2);
          noData = Inr (logf (WarningNoDataFound q) s3)
      in case res r of
           None \<Rightarrow> noData
         | Some v \<Rightarrow>
             if String v = [] then noData
             else if Type v \<noteq> ValVector then Inr s3
             else (case rowValue (String v) of
                     Inl pn \<Rightarrow> Inl pn
                   | Inr value \<Rightarrow>
                       if metric = promCpuUsageAvg then
                         (case index value 0 of
                            Inl pn \<Rightarrow> Inl pn
                          | Inr tok \<Rightarrow>
                              (let cpuUsage = fst (ParseFloat syntax tok)
                               in Inr (s3\<lparr>nodeMetrics := (nodeMetrics s3)\<lparr>Cpu := cpuUsage\<rparr>\<rparr>)))
                       else if metric = promMemUsageAvg then
                         (case index value 0 of
                            Inl pn \<Rightarrow> Inl pn
                          | Inr tok \<Rightarrow>
                              (let memUsage = fst (ParseFloat syntax tok)
                               in Inr (s3\<lparr>nodeMetrics := (nodeMetrics s3)\<lparr>Memory := memUsage\<rparr>\<rparr>)))
                       else Inr s3))"

text \<open>The loop: the iterations in order; a panic ends it.\<close>

fun loop ::
  "(string \<Rightarrow> QueryResult) \<Rightarrow> (string \<Rightarrow> 'f parsed) \<Rightarrow> string \<Rightarrow> string \<Rightarrow> string list \<Rightarrow>
     ('f::zero) state \<Rightarrow> panic + 'f state" where
  "loop Query syntax nodeName period [] s = Inr s"
| "loop Query syntax nodeName period (metric # metrics) s =
     (case loopBody Query syntax nodeName period metric s of
        Inl pn \<Rightarrow> Inl pn
      | Inr s' \<Rightarrow> loop Query syntax nodeName period metrics s')"

text \<open>
  What a call does: it panics, or it returns a pointer to a record (\<open>None\<close> is
  \<^verbatim>\<open>nil\<close>) and an error; the log of a call that returns is kept with the result.
\<close>

datatype 'f outcome = Panic panic | Return "'f NodeMetrics option" "error option" "LogLine list"

text \<open>
  \<open>NewClient\<close> is \<^verbatim>\<open>api.NewClient\<close>, which returns a client and an error, and
  \<open>Query\<close> is \<^verbatim>\<open>v1api.Query\<close> on a client.
\<close>

definition NodeMetricsAvg ::
  "(api_Config \<Rightarrow> 'c \<times> error option) \<Rightarrow> ('c \<Rightarrow> string \<Rightarrow> QueryResult) \<Rightarrow>
     (string \<Rightarrow> 'f parsed) \<Rightarrow> PrometheusMetricsClient \<Rightarrow> string \<Rightarrow> string \<Rightarrow> ('f::zero) outcome" where
  "NodeMetricsAvg NewClient Query syntax p nodeName period =
     (let l0 = [InfoGetNodeMetrics (address p)];
          (client, err) = NewClient (apiConfig p)
      in case err of
           Some e \<Rightarrow> Return None (Some e) l0
         | None \<Rightarrow>
             (case loop (Query client) syntax nodeName period [promCpuUsageAvg, promMemUsageAvg]
                     \<lparr>nodeMetrics = \<lparr>Cpu = 0, Memory = 0\<rparr>, logs = l0\<rparr> of
                Inl pn \<Rightarrow> Panic pn
              | Inr s \<Rightarrow> Return (Some (nodeMetrics s)) None (logs s)))"

section \<open>Vocabulary of the statements\<close>

text \<open>The first line of a rendering: what stands before its first newline.\<close>

definition firstLine :: "string \<Rightarrow> string" where
  "firstLine str = takeWhile (\<lambda>c. c \<noteq> CHR 0x0A) str"

text \<open>
  The token that an iteration hands to \<^verbatim>\<open>strconv.ParseFloat\<close>: the element
  \<^verbatim>\<open>value[0]\<close> of the splits of \<open>rowValue\<close>.
\<close>

definition valueToken :: "string \<Rightarrow> panic + string" where
  "valueToken str = (case rowValue str of Inl pn \<Rightarrow> Inl pn | Inr value \<Rightarrow> index value 0)"

text \<open>
  The field of a metric as decided by the result of its own query alone: zero when
  there is no result, an empty rendering or a result that is not a vector; otherwise
  the number that \<open>ParseFloat\<close> returns for the value token, or the panic of the
  splits.
\<close>

definition metricField :: "(string \<Rightarrow> 'f parsed) \<Rightarrow> QueryResult \<Rightarrow> panic + ('f::zero)" where
  "metricField syntax r =
     (case res r of
        None \<Rightarrow> Inr 0
      | Some v \<Rightarrow>
          if String v = [] \<or> Type v \<noteq> ValVector then Inr 0
          else (case valueToken (String v) of
                  Inl pn \<Rightarrow> Inl pn
                | Inr tok \<Rightarrow> Inr (fst (ParseFloat syntax tok))))"

text \<open>The log lines of one query, in the order of the \<^verbatim>\<open>klog\<close> calls.\<close>

definition queryLog :: "string \<Rightarrow> QueryResult \<Rightarrow> LogLine list" where
  "queryLog q r =
     [InfoQueryBy q] @
     (case err r of None \<Rightarrow> [] | Some e \<Rightarrow> [ErrorQuerying e]) @
     (if warnings r = [] then [] else [InfoWarningQuerying (warnings r)]) @
     (case res r of
        None \<Rightarrow> [WarningNoDataFound q]
      | Some v \<Rightarrow> if String v = [] then [WarningNoDataFound q] else [])"

text \<open>A result with nothing to parse: none, an empty rendering, or no vector.\<close>

definition noVector :: "QueryResult \<Rightarrow> bool" where
  "noVector r = (case res r of None \<Rightarrow> True | Some v \<Rightarrow> String v = [] \<or> Type v \<noteq> ValVector)"

text \<open>
  The row format of a result: when it is a vector with a rendering that is not empty,
  the first line of the rendering has the separator \<^verbatim>\<open>=>\<close>.
\<close>

definition rowFormat :: "QueryResult \<Rightarrow> bool" where
  "rowFormat r =
     (case res r of
        None \<Rightarrow> True
      | Some v \<Rightarrow> String v = [] \<or> Type v \<noteq> ValVector \<or> sublist ''=>'' (firstLine (String v)))"

text \<open>
  The rendering of a vector in the words of the specification, which are those of the
  comment in the client: a row for each sample, the rows separated by newlines; a row
  is the labels, the separator \<^verbatim>\<open>=>\<close> between two spaces, the value, a space and the
  timestamp after \<^verbatim>\<open>@\<close>. This is the side of the specification in the comparison
  with \<open>valueToken\<close>, which is the side of the code.
\<close>

definition sampleRow :: "string \<Rightarrow> string \<Rightarrow> string \<Rightarrow> string" where
  "sampleRow labels val ts = labels @ '' => '' @ val @ '' @'' @ ts"

fun joinRows :: "string list \<Rightarrow> string" where
  "joinRows [] = []"
| "joinRows [r] = r"
| "joinRows (r # rs) = r @ ''\<newline>'' @ joinRows rs"

text \<open>
  The bytes of a value as Prometheus prints it: digits, point, signs, exponent and the
  letters of \<^verbatim>\<open>NaN\<close> and \<^verbatim>\<open>Inf\<close>.
\<close>

definition valueChars :: "char list" where
  "valueChars = ''0123456789.+-eNaInf''"

text \<open>The bytes that occur in the white-space sequences.\<close>

definition spaceBytes :: "char set" where
  "spaceBytes = \<Union>(set ` set spaceSeqs)"

section \<open>An example environment\<close>

text \<open>
  A backend for the concrete instances: a client constructor that rejects the address
  \<^verbatim>\<open>://\<close> as \<^verbatim>\<open>url.Parse\<close> does, a query function that answers the CPU query with
  one result and the memory query with another, and a grammar that knows two numbers.
\<close>

definition exNewClient :: "api_Config \<Rightarrow> unit \<times> error option" where
  "exNewClient cfg =
     (if Address cfg = ''://'' then ((), Some ''parse \"://\": missing protocol scheme'')
      else ((), None))"

definition exQuery :: "QueryResult \<Rightarrow> QueryResult \<Rightarrow> unit \<Rightarrow> string \<Rightarrow> QueryResult" where
  "exQuery rCpu rMem c q = (if take 3 q = ''cpu'' then rCpu else rMem)"

definition exSyntax :: "string \<Rightarrow> real parsed" where
  "exSyntax s =
     (if s = ''0.5'' then Parsed (1 / 2) else if s = ''0.25'' then Parsed (1 / 4) else ErrSyntax)"

definition exClient :: PrometheusMetricsClient where
  "exClient = \<lparr>address = ''http://prometheus:9090'', conf = Map.empty\<rparr>"

definition vector :: "string \<Rightarrow> QueryResult" where
  "vector str = \<lparr>res = Some \<lparr>Type = ValVector, String = str\<rparr>, warnings = [], err = None\<rparr>"

definition exCpu :: QueryResult where
  "exCpu = vector ''cpu_usage_avg_5m{instance=\"worker-1\"} => 0.5 @[1700000000]''"

definition exMem :: QueryResult where
  "exMem = vector ''mem_usage_avg_5m{instance=\"worker-1\"} => 0.25 @[1700000000]''"

text \<open>A query that failed, and one that failed although a result came with the error.\<close>

definition exFailed :: QueryResult where
  "exFailed = \<lparr>res = None, warnings = [], err = Some ''context deadline exceeded''\<rparr>"

definition exPartial :: QueryResult where
  "exPartial = (exCpu\<lparr>err := Some ''strconv.ParseFloat: parsing \"bad\": invalid syntax''\<rparr>)"

text \<open>No result, an empty vector and a scalar.\<close>

definition exNil :: QueryResult where
  "exNil = \<lparr>res = None, warnings = [], err = None\<rparr>"

definition exEmpty :: QueryResult where
  "exEmpty = vector []"

definition exScalar :: QueryResult where
  "exScalar = \<lparr>res = Some \<lparr>Type = ValScalar, String = ''scalar: 0.5 @[1700000000]''\<rparr>,
               warnings = [], err = None\<rparr>"

text \<open>
  A vector whose value token is no number, and a sample with a label value that
  contains the separator of the row.
\<close>

definition exMalformed :: QueryResult where
  "exMalformed = vector ''cpu_usage_avg_5m{instance=\"worker-1\"} => 0,5 @[1700000000]''"

definition exLabelled :: QueryResult where
  "exLabelled =
     vector ''cpu_usage_avg_5m{instance=\"worker-1\", note=\"a=>b\"} => 0.5 @[1700000000]''"

text \<open>
  The values of a Go \<^verbatim>\<open>float64\<close> for the instances that need an infinity: a number,
  the two infinities, or no number. The zero value is the number zero.
\<close>

datatype float64 = Num real | PosInf | NegInf | NaN

instantiation float64 :: zero
begin

definition zero_float64 :: float64 where
  "zero_float64 = Num 0"

instance ..

end

text \<open>
  A grammar over these values: three numbers, and a literal beyond the range, for which
  \<^verbatim>\<open>ParseFloat\<close> returns the infinity with \<^verbatim>\<open>ErrRange\<close>.
\<close>

definition exSyntax64 :: "string \<Rightarrow> float64 parsed" where
  "exSyntax64 s =
     (if s = ''0.5'' then Parsed (Num (1 / 2))
      else if s = ''0.25'' then Parsed (Num (1 / 4))
      else if s = ''7'' then Parsed (Num 7)
      else if s = ''1e999'' then ErrRange PosInf
      else ErrSyntax)"

text \<open>
  A sample whose metric name has a raw newline (the rendering prints the name as it
  is), a sample with a value beyond the range, and two samples with a label value
  that contains the separator followed by a number.
\<close>

definition exNewline :: QueryResult where
  "exNewline =
     vector ''cpu_usage_avg_5m\<newline>{instance=\"worker-1\"} => 0.5 @[1700000000]''"

definition exRange :: QueryResult where
  "exRange = vector ''cpu_usage_avg_5m{instance=\"worker-1\"} => 1e999 @[1700000000]''"

definition exLabelNumber :: QueryResult where
  "exLabelNumber =
     vector ''cpu_usage_avg_5m{instance=\"worker-1\", note=\"a=> 7 \"} => 0.5 @[1700000000]''"

definition exLabelNumberMalformed :: QueryResult where
  "exLabelNumberMalformed =
     vector ''cpu_usage_avg_5m{instance=\"worker-1\", note=\"a=> 7 \"} => 0,5 @[1700000000]''"

section \<open>Properties of the splits\<close>

lemma Split_nonempty: "sep \<noteq> [] \<Longrightarrow> Split s sep \<noteq> []"
  by (subst Split.simps) (simp split: option.splits)

lemma Index_None_iff: "Index s sep = None \<longleftrightarrow> \<not> sublist sep s"
  by (induction s) (auto simp: sublist_Cons_right)

lemma Index_char:
  "Index s [c] = (if c \<in> set s then Some (length (takeWhile (\<lambda>x. x \<noteq> c) s)) else None)"
  by (induction s) auto

lemma Split_char_first: "index (Split s [c]) 0 = Inr (takeWhile (\<lambda>x. x \<noteq> c) s)"
proof (cases "c \<in> set s")
  case True
  then show ?thesis
    by (subst Split.simps) (simp add: Index_char index_def takeWhile_eq_take [symmetric])
next
  case False
  then have tw: "takeWhile (\<lambda>x. x \<noteq> c) s = s" by auto
  from False have "Split s [c] = [s]"
    by (subst Split.simps) (simp add: Index_char)
  then show ?thesis
    unfolding tw by (simp add: index_def)
qed

lemma length_Split: "sep \<noteq> [] \<Longrightarrow> 1 < length (Split s sep) \<longleftrightarrow> sublist sep s"
  using Index_None_iff [of s sep]
  by (subst Split.simps) (auto simp: Split_nonempty split: option.splits)

lemma Split_no_sep: "sep \<noteq> [] \<Longrightarrow> \<not> sublist sep s \<Longrightarrow> Split s sep = [s]"
  using Index_None_iff [of s sep] by (subst Split.simps) simp

text \<open>
  Trimming never touches an occurrence of a pattern whose first byte is in none of the
  trimmed sequences.
\<close>

lemma sublist_skip: "c \<notin> set w \<Longrightarrow> sublist (c # xs) (w @ s) \<longleftrightarrow> sublist (c # xs) s"
  by (induction w) (auto simp: sublist_Cons_right)

lemma sublist_trimPrefix:
  "\<forall>w \<in> set ws. c \<notin> set w \<Longrightarrow> sublist (c # xs) (trimPrefix ws s) \<longleftrightarrow> sublist (c # xs) s"
proof (induction ws s rule: trimPrefix.induct)
  case (1 ws s)
  show ?case
  proof (cases "filter (\<lambda>w. w \<noteq> [] \<and> prefix w s) ws")
    case Nil
    then show ?thesis by (subst trimPrefix.simps) simp
  next
    case (Cons w rest)
    then have "w \<in> set (filter (\<lambda>w. w \<noteq> [] \<and> prefix w s) ws)" by simp
    then have w: "w \<in> set ws" "prefix w s" by simp_all
    then obtain s' where s: "s = w @ s'" by (auto simp: prefix_def)
    from w "1.prems" have "c \<notin> set w" by blast
    then have "sublist (c # xs) s' \<longleftrightarrow> sublist (c # xs) s"
      unfolding s by (simp add: sublist_skip)
    moreover have "sublist (c # xs) (trimPrefix ws (drop (length w) s)) \<longleftrightarrow>
        sublist (c # xs) (drop (length w) s)"
      using "1.IH" [OF Cons] "1.prems" by simp
    moreover have "trimPrefix ws s = trimPrefix ws (drop (length w) s)"
      by (subst trimPrefix.simps) (simp add: Cons)
    ultimately show ?thesis by (simp add: s)
  qed
qed

lemma eq_notin_spaceSeqs: "\<forall>w \<in> set spaceSeqs. CHR ''='' \<notin> set w"
  by (simp add: spaceSeqs_def asciiSpace_def unicodeSpace_def)

lemma gt_notin_spaceSeqs: "\<forall>w \<in> set (map rev spaceSeqs). CHR ''>'' \<notin> set w"
  by (simp add: spaceSeqs_def asciiSpace_def unicodeSpace_def)

lemma sublist_TrimSpace: "sublist ''=>'' (TrimSpace s) \<longleftrightarrow> sublist ''=>'' s"
proof -
  have "sublist ''=>'' (TrimSpace s) \<longleftrightarrow>
      sublist (rev ''=>'') (trimPrefix (map rev spaceSeqs) (rev (TrimLeftSpace s)))"
    unfolding TrimSpace_def TrimRightSpace_def by (simp only: sublist_rev_right)
  also have "\<dots> \<longleftrightarrow> sublist (rev ''=>'') (rev (TrimLeftSpace s))"
    using sublist_trimPrefix [OF gt_notin_spaceSeqs] by simp
  also have "\<dots> \<longleftrightarrow> sublist ''=>'' (trimPrefix spaceSeqs s)"
    unfolding TrimLeftSpace_def by (simp only: sublist_rev)
  also have "\<dots> \<longleftrightarrow> sublist ''=>'' s"
    using sublist_trimPrefix [OF eq_notin_spaceSeqs] by simp
  finally show ?thesis .
qed

lemma rowValue_eq:
  "rowValue str =
     (if sublist ''=>'' (firstLine str)
      then Inr (Split (TrimSpace (Split (TrimSpace (firstLine str)) ''=>'' ! 1)) '' '')
      else Inl (IndexOutOfRange 1 (length (Split (TrimSpace (firstLine str)) ''=>''))))"
proof -
  have "1 < length (Split (TrimSpace (firstLine str)) ''=>'') \<longleftrightarrow> sublist ''=>'' (firstLine str)"
    using length_Split [of "''=>''" "TrimSpace (firstLine str)"] by (simp add: sublist_TrimSpace)
  then show ?thesis
    unfolding rowValue_def firstLine_def Split_char_first
    by (simp add: index_def Let_def)
qed

lemma valueToken_eq:
  "valueToken str =
     (if sublist ''=>'' (firstLine str)
      then Inr (Split (TrimSpace (Split (TrimSpace (firstLine str)) ''=>'' ! 1)) '' '' ! 0)
      else Inl (IndexOutOfRange 1 1))"
proof (cases "sublist ''=>'' (firstLine str)")
  case True
  have "Split (TrimSpace (Split (TrimSpace (firstLine str)) ''=>'' ! 1)) '' '' \<noteq> []"
    by (rule Split_nonempty) simp
  with True show ?thesis
    by (simp add: valueToken_def rowValue_eq index_def)
next
  case False
  then have "Split (TrimSpace (firstLine str)) ''=>'' = [TrimSpace (firstLine str)]"
    by (intro Split_no_sep) (simp_all add: sublist_TrimSpace)
  with False show ?thesis
    by (simp add: valueToken_def rowValue_eq)
qed

section \<open>The call in terms of the two query results\<close>

lemma prom_neq: "promMemUsageAvg \<noteq> promCpuUsageAvg"
  by (simp add: promCpuUsageAvg_def promMemUsageAvg_def)

lemma loopBody_cpu:
  assumes "Cpu (nodeMetrics s) = 0"
  shows "loopBody Q syn n p promCpuUsageAvg s =
     (case metricField syn (Q (queryStr promCpuUsageAvg p n)) of
        Inl pn \<Rightarrow> Inl pn
      | Inr x \<Rightarrow>
          Inr (s\<lparr>nodeMetrics := (nodeMetrics s)\<lparr>Cpu := x\<rparr>,
                 logs := logs s @ queryLog (queryStr promCpuUsageAvg p n)
                                   (Q (queryStr promCpuUsageAvg p n))\<rparr>))"
  using assms
  by (auto simp: loopBody_def metricField_def valueToken_def queryLog_def logf_def Let_def
      split: option.splits sum.splits)

lemma loopBody_mem:
  assumes "Memory (nodeMetrics s) = 0"
  shows "loopBody Q syn n p promMemUsageAvg s =
     (case metricField syn (Q (queryStr promMemUsageAvg p n)) of
        Inl pn \<Rightarrow> Inl pn
      | Inr x \<Rightarrow>
          Inr (s\<lparr>nodeMetrics := (nodeMetrics s)\<lparr>Memory := x\<rparr>,
                 logs := logs s @ queryLog (queryStr promMemUsageAvg p n)
                                   (Q (queryStr promMemUsageAvg p n))\<rparr>))"
  using assms prom_neq
  by (auto simp: loopBody_def metricField_def valueToken_def queryLog_def logf_def Let_def
      split: option.splits sum.splits)

text \<open>
  A call whose client is constructed panics where the first of the two fields panics,
  and returns the two fields otherwise, with the log of both queries.
\<close>

lemma NodeMetricsAvg_eq:
  "NodeMetricsAvg N Q syn p n per =
     (case N (apiConfig p) of
        (c, Some e) \<Rightarrow> Return None (Some e) [InfoGetNodeMetrics (address p)]
      | (c, None) \<Rightarrow>
          (case metricField syn (Q c (queryStr promCpuUsageAvg per n)) of
             Inl pn \<Rightarrow> Panic pn
           | Inr x \<Rightarrow>
               (case metricField syn (Q c (queryStr promMemUsageAvg per n)) of
                  Inl pn \<Rightarrow> Panic pn
                | Inr y \<Rightarrow>
                    Return (Some \<lparr>Cpu = x, Memory = y\<rparr>) None
                      (InfoGetNodeMetrics (address p) #
                       queryLog (queryStr promCpuUsageAvg per n)
                         (Q c (queryStr promCpuUsageAvg per n)) @
                       queryLog (queryStr promMemUsageAvg per n)
                         (Q c (queryStr promMemUsageAvg per n))))))"
  by (simp add: NodeMetricsAvg_def loopBody_cpu loopBody_mem
      split: prod.splits option.splits sum.splits)

section \<open>The example environment, evaluated\<close>

lemma queryStr_append:
  "queryStr metric period nodeName =
     metric @ ''_'' @ period @ ''{instance=\"'' @ nodeName @ ''\"}''"
  by (simp add: queryStr_def)

lemma queryStr_cpu_ex:
  "queryStr promCpuUsageAvg ''5m'' ''worker-1'' = ''cpu_usage_avg_5m{instance=\"worker-1\"}''"
  by (simp add: queryStr_append promCpuUsageAvg_def)

lemma queryStr_mem_ex:
  "queryStr promMemUsageAvg ''5m'' ''worker-1'' = ''mem_usage_avg_5m{instance=\"worker-1\"}''"
  by (simp add: queryStr_append promMemUsageAvg_def)

lemma exQuery_cpu [simp]: "exQuery rCpu rMem c (queryStr promCpuUsageAvg per n) = rCpu"
  by (simp add: exQuery_def queryStr_append promCpuUsageAvg_def)

lemma exQuery_mem [simp]: "exQuery rCpu rMem c (queryStr promMemUsageAvg per n) = rMem"
  by (simp add: exQuery_def queryStr_append promMemUsageAvg_def)

lemma exNewClient_ok [simp]: "exNewClient (apiConfig exClient) = ((), None)"
  by (simp add: exNewClient_def apiConfig_def exClient_def)

lemma address_exClient: "address exClient = ''http://prometheus:9090''"
  by (simp add: exClient_def)

lemma valueToken_exCpu:
  "valueToken ''cpu_usage_avg_5m{instance=\"worker-1\"} => 0.5 @[1700000000]'' = Inr ''0.5''"
  by code_simp

lemma valueToken_exMem:
  "valueToken ''mem_usage_avg_5m{instance=\"worker-1\"} => 0.25 @[1700000000]'' = Inr ''0.25''"
  by code_simp

lemma valueToken_exMalformed:
  "valueToken ''cpu_usage_avg_5m{instance=\"worker-1\"} => 0,5 @[1700000000]'' = Inr ''0,5''"
  by code_simp

lemma valueToken_exLabelled:
  "valueToken ''cpu_usage_avg_5m{instance=\"worker-1\", note=\"a=>b\"} => 0.5 @[1700000000]'' =
     Inr ''b\"}''"
  by code_simp

lemma metricField_exCpu [simp]: "metricField exSyntax exCpu = Inr (1 / 2)"
  by (simp add: metricField_def exCpu_def vector_def valueToken_exCpu ParseFloat_def exSyntax_def)

lemma metricField_exMem [simp]: "metricField exSyntax exMem = Inr (1 / 4)"
  by (simp add: metricField_def exMem_def vector_def valueToken_exMem ParseFloat_def exSyntax_def)

lemma metricField_exPartial: "metricField exSyntax exPartial = Inr (1 / 2)"
  by (simp add: metricField_def exPartial_def exCpu_def vector_def valueToken_exCpu
      ParseFloat_def exSyntax_def)

lemma metricField_exNil: "metricField syn exNil = Inr 0"
  by (simp add: metricField_def exNil_def)

lemma metricField_exLabelled: "metricField exSyntax exLabelled = Inr 0"
  by (simp add: metricField_def exLabelled_def vector_def valueToken_exLabelled
      ParseFloat_def exSyntax_def)

lemma rowFormat_ex: "rowFormat exCpu" "rowFormat exMem"
  unfolding rowFormat_def exCpu_def exMem_def vector_def firstLine_def by code_simp+

lemma noVector_ex: "noVector exNil" "noVector exEmpty" "noVector exScalar"
  by (simp_all add: noVector_def exNil_def exEmpty_def exScalar_def vector_def)

lemma queryLog_vector [simp]: "str \<noteq> [] \<Longrightarrow> queryLog q (vector str) = [InfoQueryBy q]"
  by (simp add: queryLog_def vector_def)

lemma queryLog_exCpu: "queryLog q exCpu = [InfoQueryBy q]"
  by (simp add: exCpu_def)

lemma queryLog_exMem: "queryLog q exMem = [InfoQueryBy q]"
  by (simp add: exMem_def)

lemma queryLog_exMalformed: "queryLog q exMalformed = [InfoQueryBy q]"
  by (simp add: exMalformed_def)

lemma queryLog_exLabelled: "queryLog q exLabelled = [InfoQueryBy q]"
  by (simp add: exLabelled_def)

lemma queryLog_exPartial:
  "queryLog q exPartial =
     [InfoQueryBy q, ErrorQuerying ''strconv.ParseFloat: parsing \"bad\": invalid syntax'']"
  by (simp add: queryLog_def exPartial_def exCpu_def vector_def)

lemma queryLog_exFailed:
  "queryLog q exFailed =
     [InfoQueryBy q, ErrorQuerying ''context deadline exceeded'', WarningNoDataFound q]"
  by (simp add: queryLog_def exFailed_def)

lemma exFailed_sel:
  "err exFailed = Some ''context deadline exceeded''" "res exFailed = None"
  by (simp_all add: exFailed_def)

lemma queryLog_exNil: "queryLog q exNil = [InfoQueryBy q, WarningNoDataFound q]"
  by (simp add: queryLog_def exNil_def)

lemma queryLog_exEmpty: "queryLog q exEmpty = [InfoQueryBy q, WarningNoDataFound q]"
  by (simp add: queryLog_def exEmpty_def vector_def)

lemma queryLog_exScalar: "queryLog q exScalar = [InfoQueryBy q]"
  by (simp add: queryLog_def exScalar_def)

lemma zero64: "(0::float64) = Num 0"
  by (simp add: zero_float64_def)

lemma valueToken_exNewline:
  "valueToken ''cpu_usage_avg_5m\<newline>{instance=\"worker-1\"} => 0.5 @[1700000000]'' =
     Inl (IndexOutOfRange 1 1)"
  by code_simp


lemma valueToken_exLabelNumber:
  "valueToken ''cpu_usage_avg_5m{instance=\"worker-1\", note=\"a=> 7 \"} => 0.5 @[1700000000]'' =
     Inr ''7''"
  by code_simp


lemma metricField64_exMem: "metricField exSyntax64 exMem = Inr (Num (1 / 4))"
  by (simp add: metricField_def exMem_def vector_def valueToken_exMem ParseFloat_def exSyntax64_def)

lemma metricField64_exLabelNumber: "metricField exSyntax64 exLabelNumber = Inr (Num 7)"
  by (simp add: metricField_def exLabelNumber_def vector_def valueToken_exLabelNumber
      ParseFloat_def exSyntax64_def)



lemma metricField_exNewline: "metricField syn exNewline = Inl (IndexOutOfRange 1 1)"
  by (simp add: metricField_def exNewline_def vector_def valueToken_exNewline)

lemma queryLog_ex64:
  "queryLog q exRange = [InfoQueryBy q]" "queryLog q exLabelNumber = [InfoQueryBy q]"
  "queryLog q exLabelNumberMalformed = [InfoQueryBy q]"
  by (simp_all add: exRange_def exLabelNumber_def exLabelNumberMalformed_def)

lemma exCpu_row:
  "res exCpu = Some \<lparr>Type = ValVector,
     String = joinRows [sampleRow ''cpu_usage_avg_5m{instance=\"worker-1\"}'' ''0.5'' ''[1700000000]'']\<rparr>"
  by (simp add: exCpu_def vector_def sampleRow_def)

lemma exMem_row:
  "res exMem = Some \<lparr>Type = ValVector,
     String = joinRows [sampleRow ''mem_usage_avg_5m{instance=\"worker-1\"}'' ''0.25'' ''[1700000000]'']\<rparr>"
  by (simp add: exMem_def vector_def sampleRow_def)





lemma exSyntax64_ex:
  "exSyntax64 ''0,5'' = ErrSyntax" "exSyntax64 ''1e999'' = ErrRange PosInf"
  "exSyntax64 ''0.5'' = Parsed (Num (1 / 2))"
  by (simp_all add: exSyntax64_def)

lemmas ex_call =
  NodeMetricsAvg_eq address_exClient queryLog_exMem queryLog_exCpu

lemmas ex_logs =
  queryLog_exCpu queryLog_exMem queryLog_exMalformed queryLog_exFailed queryLog_exNil
  queryLog_exEmpty queryLog_exScalar address_exClient queryStr_cpu_ex queryStr_mem_ex

section \<open>The query string\<close>

text \<open>
  C1. For every metric, period and node name, the query string is the metric name, an
  underscore, the period, then \<^verbatim>\<open>{instance="\<close>, the node name and \<^verbatim>\<open>"}\<close>; for the
  CPU metric, the period \<^verbatim>\<open>5m\<close> and the node \<^verbatim>\<open>worker-1\<close> it is
  \<^verbatim>\<open>cpu_usage_avg_5m{instance="worker-1"}\<close>.
\<close>

theorem C1_query_string:
  "queryStr metric period nodeName =
     metric @ ''_'' @ period @ ''{instance=\"'' @ nodeName @ ''\"}'' \<and>
   queryStr promCpuUsageAvg ''5m'' ''worker-1'' = ''cpu_usage_avg_5m{instance=\"worker-1\"}''"
  by (simp add: queryStr_def promCpuUsageAvg_def)

section \<open>Errors and results of a call\<close>

lemma metricField_rowFormat: "rowFormat r \<Longrightarrow> \<exists>x. metricField syn r = Inr x"
  by (auto simp: rowFormat_def metricField_def valueToken_eq split: option.splits)

text \<open>
  The rendering of a vector of samples keeps the row format when the metric text of its
  first row, which is printed as it is, has no newline.
\<close>

lemma firstLine_sample_rows:
  assumes "CHR 0x0A \<notin> set labels"
  shows "sublist ''=>'' (firstLine (joinRows (sampleRow labels val ts # rows)))"
proof -
  obtain rest where "joinRows (sampleRow labels val ts # rows) = labels @ '' =>'' @ rest"
    by (cases rows) (simp_all add: sampleRow_def)
  moreover from assms have "takeWhile (\<lambda>c. c \<noteq> CHR 0x0A) (labels @ '' =>'' @ rest) =
      labels @ takeWhile (\<lambda>c. c \<noteq> CHR 0x0A) ('' =>'' @ rest)"
    by (intro takeWhile_append2) auto
  ultimately have "firstLine (joinRows (sampleRow labels val ts # rows)) =
      (labels @ '' '') @ ''=>'' @ firstLine rest"
    by (simp add: firstLine_def)
  then show ?thesis by (simp only: sublist_appendI)
qed

lemma rowFormat_sample_rows:
  assumes "res r = Some \<lparr>Type = ty, String = joinRows (sampleRow labels val ts # rows)\<rparr>"
    and "CHR 0x0A \<notin> set labels"
  shows "rowFormat r"
  using assms by (simp add: rowFormat_def firstLine_sample_rows)

text \<open>
  C2, as amended. A call returns an error that is not nil if and only if
  \<^verbatim>\<open>api.NewClient\<close> returns one for the configuration of the client. When the
  backend client is constructed and both query results keep the row format (every
  result that is a vector with a rendering that is not empty has \<^verbatim>\<open>=>\<close> in its first
  line; query errors, empty results, other types and tokens that are no numbers
  included), the call returns a record and a nil error. A vector of samples keeps the
  row format whenever the metric text of its first row has no newline.
\<close>

theorem C2_error_iff_no_client:
  "((\<exists>nm e l. NodeMetricsAvg N Q syn p n per = Return nm (Some e) l) \<longleftrightarrow>
      snd (N (apiConfig p)) \<noteq> None) \<and>
   (snd (N (apiConfig p)) = None \<longrightarrow>
    rowFormat (Q (fst (N (apiConfig p))) (queryStr promCpuUsageAvg per n)) \<longrightarrow>
    rowFormat (Q (fst (N (apiConfig p))) (queryStr promMemUsageAvg per n)) \<longrightarrow>
    (\<exists>nm l. NodeMetricsAvg N Q syn p n per = Return (Some nm) None l)) \<and>
   (res r = Some \<lparr>Type = ValVector, String = joinRows (sampleRow labels val ts # rows)\<rparr> \<longrightarrow>
    CHR 0x0A \<notin> set labels \<longrightarrow> rowFormat r)"
proof (cases "N (apiConfig p)")
  case (Pair c e)
  have fmt: "res r = Some \<lparr>Type = ValVector, String = joinRows (sampleRow labels val ts # rows)\<rparr> \<longrightarrow>
    CHR 0x0A \<notin> set labels \<longrightarrow> rowFormat r"
    using rowFormat_sample_rows by blast
  show ?thesis
  proof (cases e)
    case None
    have "\<exists>nm l. NodeMetricsAvg N Q syn p n per = Return (Some nm) None l"
      if "rowFormat (Q c (queryStr promCpuUsageAvg per n))"
        and "rowFormat (Q c (queryStr promMemUsageAvg per n))"
    proof -
      from that obtain x y where
        "metricField syn (Q c (queryStr promCpuUsageAvg per n)) = Inr x"
        "metricField syn (Q c (queryStr promMemUsageAvg per n)) = Inr (y::'a)"
        using metricField_rowFormat by blast
      then show ?thesis by (simp add: NodeMetricsAvg_eq Pair None)
    qed
    moreover have "\<not> (\<exists>nm e l. NodeMetricsAvg N Q syn p n per = Return nm (Some e) l)"
      by (simp add: NodeMetricsAvg_eq Pair None split: sum.splits)
    ultimately show ?thesis using fmt by (simp add: Pair None)
  next
    case (Some e')
    then show ?thesis using fmt by (simp add: NodeMetricsAvg_eq Pair)
  qed
qed

theorem C2_witness:
  "snd (exNewClient (apiConfig exClient)) = None \<and>
   res exCpu = Some \<lparr>Type = ValVector,
     String = joinRows [sampleRow ''cpu_usage_avg_5m{instance=\"worker-1\"}'' ''0.5'' ''[1700000000]'']\<rparr> \<and>
   res exMem = Some \<lparr>Type = ValVector,
     String = joinRows [sampleRow ''mem_usage_avg_5m{instance=\"worker-1\"}'' ''0.25'' ''[1700000000]'']\<rparr> \<and>
   rowFormat exCpu \<and> rowFormat exMem \<and>
   (\<exists>nm l. NodeMetricsAvg exNewClient (exQuery exCpu exMem) exSyntax exClient ''worker-1'' ''5m'' =
      Return (Some nm) None l) \<and>
   \<not> (\<exists>nm e l. NodeMetricsAvg exNewClient (exQuery exCpu exMem) exSyntax exClient ''worker-1'' ''5m'' =
      Return nm (Some e) l)"
proof -
  note th = C2_error_iff_no_client [of exNewClient "exQuery exCpu exMem" exSyntax exClient
      "''worker-1''" "''5m''"]
  have c: "rowFormat exCpu"
    using th [of exCpu "''cpu_usage_avg_5m{instance=\"worker-1\"}''" "''0.5''" "''[1700000000]''" "[]"]
      exCpu_row by simp
  have m: "rowFormat exMem"
    using th [of exMem "''mem_usage_avg_5m{instance=\"worker-1\"}''" "''0.25''" "''[1700000000]''" "[]"]
      exMem_row by simp
  from th [of exCpu "''x''" "''y''" "''z''" "[]"] c m exCpu_row exMem_row show ?thesis by simp
qed

text \<open>
  The claim as it was stated fails: the backend client is constructed and the CPU
  query is answered by a vector of one sample whose metric name ends in a newline. The
  name is printed raw, the first line of the rendering has no separator, and the call
  panics.
\<close>

theorem C2_counterexample:
  "res exNewline =
     Some \<lparr>Type = ValVector,
           String = joinRows [sampleRow ''cpu_usage_avg_5m\<newline>{instance=\"worker-1\"}''
                                ''0.5'' ''[1700000000]'']\<rparr> \<and>
   snd (exNewClient (apiConfig exClient)) = None \<and>
   NodeMetricsAvg exNewClient (exQuery exNewline exMem) exSyntax exClient ''worker-1'' ''5m'' =
     Panic (IndexOutOfRange 1 1)"
proof -
  have "res exNewline =
     Some \<lparr>Type = ValVector,
           String = joinRows [sampleRow ''cpu_usage_avg_5m\<newline>{instance=\"worker-1\"}''
                                ''0.5'' ''[1700000000]'']\<rparr>"
    by (simp add: exNewline_def vector_def sampleRow_def)
  moreover have
    "NodeMetricsAvg exNewClient (exQuery exNewline exMem) exSyntax exClient ''worker-1'' ''5m'' =
     Panic (IndexOutOfRange 1 1)"
    by (simp add: NodeMetricsAvg_eq metricField_exNewline)
  ultimately show ?thesis by simp
qed


section \<open>The value token of a sample row\<close>

text \<open>
  Trimming removes a prefix and a suffix made of white-space bytes, so it keeps
  whatever stands between two bytes that are not white space.
\<close>

lemma trimPrefix_decomp: "\<exists>a. s = a @ trimPrefix ws s \<and> set a \<subseteq> \<Union>(set ` set ws)"
proof (induction ws s rule: trimPrefix.induct)
  case (1 ws s)
  show ?case
  proof (cases "filter (\<lambda>w. w \<noteq> [] \<and> prefix w s) ws")
    case Nil
    then have "trimPrefix ws s = s" by (subst trimPrefix.simps) simp
    then show ?thesis by (intro exI [of _ "[]"]) simp
  next
    case (Cons w rest)
    then have "w \<in> set (filter (\<lambda>w. w \<noteq> [] \<and> prefix w s) ws)" by simp
    then have w: "w \<in> set ws" "prefix w s" by simp_all
    then obtain s' where s: "s = w @ s'" by (auto simp: prefix_def)
    have "trimPrefix ws s = trimPrefix ws (drop (length w) s)"
      by (subst trimPrefix.simps) (simp add: Cons)
    then have eq: "trimPrefix ws s = trimPrefix ws s'" by (simp add: s)
    define T where "T = trimPrefix ws s'"
    from "1.IH" [OF Cons] obtain a where
      a: "s' = a @ T" "set a \<subseteq> \<Union>(set ` set ws)"
      by (auto simp: s T_def)
    have "trimPrefix ws s = T" by (simp add: eq T_def)
    with a(1) have "s = (w @ a) @ trimPrefix ws s" by (simp add: s)
    moreover from a(2) w(1) have "set (w @ a) \<subseteq> \<Union>(set ` set ws)" by auto
    ultimately show ?thesis by blast
  qed
qed

lemma middle_left:
  assumes eq: "a @ t = u @ m @ v" and m: "m \<noteq> []" and hd: "hd m \<notin> set a"
  shows "\<exists>u'. t = u' @ m @ v \<and> suffix u' u"
proof -
  from eq consider us where "a = u @ us" "us @ t = m @ v" | us where "a @ us = u" "t = us @ m @ v"
    by (auto simp: append_eq_append_conv2)
  then show ?thesis
  proof cases
    case 1
    have "us = []"
    proof (rule ccontr)
      assume "us \<noteq> []"
      with 1(2) m have "hd us = hd m" by (cases us; cases m) auto
      with \<open>us \<noteq> []\<close> 1(1) hd show False by (cases us) auto
    qed
    with 1 show ?thesis by (intro exI [of _ "[]"]) simp
  next
    case 2
    then show ?thesis by (intro exI [of _ us]) (auto simp: suffix_def)
  qed
qed

lemma middle_right:
  assumes eq: "t @ b = u @ m @ v" and m: "m \<noteq> []" and last: "last m \<notin> set b"
  shows "\<exists>v'. t = u @ m @ v' \<and> prefix v' v"
proof -
  from eq have "rev b @ rev t = rev v @ rev m @ rev u" by (metis append.assoc rev_append)
  moreover from m have "rev m \<noteq> []" by simp
  moreover from last m have "hd (rev m) \<notin> set (rev b)" by (simp add: hd_rev)
  ultimately obtain w where w: "rev t = w @ rev m @ rev u" "suffix w (rev v)"
    using middle_left by blast
  from w(1) have "t = u @ m @ rev w" by (metis append.assoc rev_append rev_rev_ident)
  moreover from w(2) have "prefix (rev w) v" by (metis suffix_to_prefix rev_rev_ident)
  ultimately show ?thesis by blast
qed

lemma sublist_snoc_space: "sublist ''=>'' (l @ '' '') \<Longrightarrow> sublist ''=>'' l"
proof -
  assume "sublist ''=>'' (l @ '' '')"
  then obtain ps ss where e: "l @ '' '' = ps @ ''=>'' @ ss" by (auto simp: sublist_def)
  show ?thesis
  proof (cases ss rule: rev_cases)
    case Nil
    with e have "l @ '' '' = (ps @ ''='') @ ''>''" by simp
    then show ?thesis by (simp only: append1_eq_conv) simp
  next
    case (snoc ss' c)
    with e have "l @ '' '' = (ps @ ''=>'' @ ss') @ [c]" by simp
    then have "l = ps @ ''=>'' @ ss'" by (simp only: append1_eq_conv)
    then show ?thesis by (auto simp: sublist_def)
  qed
qed

lemma Index_sep: "\<not> sublist ''=>'' u \<Longrightarrow> Index (u @ ''=>'' @ v) ''=>'' = Some (length u)"
proof (induction u)
  case Nil
  then show ?case by simp
next
  case (Cons x u)
  then show ?case
    by (cases u) (auto simp: sublist_Cons_right)
qed

lemma Index_skip:
  "CHR ''='' \<notin> set w \<Longrightarrow>
     Index (w @ z) ''=>'' = (case Index z ''=>'' of None \<Rightarrow> None | Some m \<Rightarrow> Some (length w + m))"
  by (induction w) (auto split: option.splits)

lemma spaceBytes_rev: "\<Union>(set ` set (map rev spaceSeqs)) = spaceBytes"
  by (auto simp: spaceBytes_def)

lemma TrimLeft_decomp: "\<exists>a. s = a @ TrimLeftSpace s \<and> set a \<subseteq> spaceBytes"
  unfolding TrimLeftSpace_def spaceBytes_def by (rule trimPrefix_decomp)

lemma TrimRight_decomp: "\<exists>b. s = TrimRightSpace s @ b \<and> set b \<subseteq> spaceBytes"
proof -
  from trimPrefix_decomp [of "rev s" "map rev spaceSeqs"] obtain a where
    a: "rev s = a @ trimPrefix (map rev spaceSeqs) (rev s)" "set a \<subseteq> spaceBytes"
    unfolding spaceBytes_rev by blast
  from a(1) have "rev (rev s) = rev (a @ trimPrefix (map rev spaceSeqs) (rev s))" by simp
  then have "s = TrimRightSpace s @ rev a" by (simp add: TrimRightSpace_def)
  with a(2) show ?thesis by (intro exI [of _ "rev a"]) simp
qed

lemma TrimLeft_middle:
  assumes "m \<noteq> []" and "hd m \<notin> spaceBytes"
  shows "\<exists>u'. TrimLeftSpace (u @ m @ v) = u' @ m @ v \<and> suffix u' u"
proof -
  from TrimLeft_decomp [of "u @ m @ v"] obtain a where
    a: "a @ TrimLeftSpace (u @ m @ v) = u @ m @ v" "set a \<subseteq> spaceBytes" by metis
  with assms have "hd m \<notin> set a" by blast
  from middle_left [OF a(1) assms(1) this] show ?thesis .
qed

lemma TrimRight_middle:
  assumes "m \<noteq> []" and "last m \<notin> spaceBytes"
  shows "\<exists>v'. TrimRightSpace (u @ m @ v) = u @ m @ v' \<and> prefix v' v"
proof -
  from TrimRight_decomp [of "u @ m @ v"] obtain b where
    b: "TrimRightSpace (u @ m @ v) @ b = u @ m @ v" "set b \<subseteq> spaceBytes" by metis
  with assms have "last m \<notin> set b" by blast
  from middle_right [OF b(1) assms(1) this] show ?thesis .
qed

lemma TrimSpace_middle:
  assumes "m \<noteq> []" and "hd m \<notin> spaceBytes" and "last m \<notin> spaceBytes"
  shows "\<exists>u' v'. TrimSpace (u @ m @ v) = u' @ m @ v' \<and> suffix u' u \<and> prefix v' v"
proof -
  from TrimLeft_middle [OF assms(1,2)] obtain u' where
    u': "TrimLeftSpace (u @ m @ v) = u' @ m @ v" "suffix u' u" by blast
  from TrimRight_middle [OF assms(1,3)] obtain v' where
    "TrimRightSpace (u' @ m @ v) = u' @ m @ v'" "prefix v' v" by blast
  with u' show ?thesis by (auto simp: TrimSpace_def)
qed

lemma TrimLeft_space: "TrimLeftSpace (CHR '' '' # s) = TrimLeftSpace s"
  unfolding TrimLeftSpace_def
  by (subst trimPrefix.simps) (simp add: spaceSeqs_def asciiSpace_def unicodeSpace_def)

lemma TrimLeft_solid:
  assumes "s \<noteq> []" and "hd s \<notin> spaceBytes"
  shows "TrimLeftSpace s = s"
proof -
  have "filter (\<lambda>w. w \<noteq> [] \<and> prefix w s) spaceSeqs = []"
  proof (rule ccontr)
    assume "filter (\<lambda>w. w \<noteq> [] \<and> prefix w s) spaceSeqs \<noteq> []"
    then obtain w where "w \<in> set spaceSeqs" "w \<noteq> []" "prefix w s"
      by (auto simp: filter_empty_conv)
    then have "hd s \<in> set w" by (auto simp: prefix_def neq_Nil_conv)
    with \<open>w \<in> set spaceSeqs\<close> assms(2) show False by (auto simp: spaceBytes_def)
  qed
  then show ?thesis
    unfolding TrimLeftSpace_def by (subst trimPrefix.simps) simp
qed

lemma valueChars_solid: "c \<in> set valueChars \<Longrightarrow> c \<notin> spaceBytes \<and> c \<noteq> CHR ''=''"
  by (auto simp: valueChars_def spaceBytes_def spaceSeqs_def asciiSpace_def unicodeSpace_def)

lemma eq_solid: "CHR ''='' \<notin> spaceBytes"
  by (auto simp: spaceBytes_def spaceSeqs_def asciiSpace_def unicodeSpace_def)

lemma space_in: "CHR '' '' \<in> spaceBytes" "CHR 0x0A \<in> spaceBytes"
  by (auto simp: spaceBytes_def spaceSeqs_def asciiSpace_def unicodeSpace_def)

lemma Split_first_char: "Split s [c] ! 0 = takeWhile (\<lambda>x. x \<noteq> c) s"
  using Split_char_first [of s c] Split_nonempty [of "[c]" s]
  by (simp add: index_def split: if_splits)

lemma Split_at_sep:
  "\<not> sublist ''=>'' u \<Longrightarrow> Split (u @ ''=>'' @ z) ''=>'' = u # Split z ''=>''"
proof -
  assume "\<not> sublist ''=>'' u"
  then have "Index (u @ ''=>'' @ z) ''=>'' = Some (length u)" by (rule Index_sep)
  then show ?thesis by (subst Split.simps) (simp del: append_Cons add: Split_nonempty)
qed

lemma hd_Split_skip:
  assumes "CHR ''='' \<notin> set w"
  shows "\<exists>p. hd (Split (w @ z) ''=>'') = w @ p \<and> prefix p z"
proof (cases "Index z ''=>''")
  case None
  with assms have "Split (w @ z) ''=>'' = [w @ z]"
    by (subst Split.simps) (simp add: Index_skip)
  then show ?thesis by (intro exI [of _ z]) simp
next
  case (Some k)
  with assms have "hd (Split (w @ z) ''=>'') = w @ take k z"
    by (subst Split.simps) (simp add: Index_skip)
  then show ?thesis by (intro exI [of _ "take k z"]) (simp add: take_is_prefix)
qed

lemma prefix_space: "prefix p (CHR '' '' # r) \<Longrightarrow> takeWhile (\<lambda>x. x \<noteq> CHR '' '') p = []"
  by (cases p) auto

lemma valueToken_sample_row:
  assumes lab: "\<not> sublist ''=>'' labels" "CHR 0x0A \<notin> set labels"
    and tok: "tok \<noteq> []" "\<forall>c \<in> set tok. c \<notin> spaceBytes \<and> c \<noteq> CHR ''=''"
  shows "valueToken (labels @ '' => '' @ tok @ '' '' @ rest) = Inr tok"
proof -
  let ?str = "labels @ '' => '' @ tok @ '' '' @ rest"
  let ?u = "labels @ '' ''" and ?m = "''=> '' @ tok" and ?v = "CHR '' '' # firstLine rest"
  note solid = tok(2)
  with space_in have nosp: "\<forall>c \<in> set tok. c \<noteq> CHR '' '' \<and> c \<noteq> CHR 0x0A" by blast
  have "firstLine ?str = (labels @ '' => '' @ tok @ '' '') @ firstLine rest"
    unfolding firstLine_def using lab(2) nosp
    by (subst append_assoc [symmetric])+ (subst takeWhile_append2; auto)
  then have first: "firstLine ?str = ?u @ ?m @ ?v" by simp
  have "?m \<noteq> []" "hd ?m \<notin> spaceBytes" "last ?m \<notin> spaceBytes"
    using tok(1) solid eq_solid by simp_all
  from TrimSpace_middle [OF this, of ?u ?v] obtain u' v' where
    T: "TrimSpace (firstLine ?str) = u' @ ?m @ v'" and u': "suffix u' ?u" and v': "prefix v' ?v"
    unfolding first by blast
  have nou: "\<not> sublist ''=>'' u'"
  proof
    assume "sublist ''=>'' u'"
    moreover from u' have "sublist u' ?u" by (rule suffix_imp_sublist)
    ultimately have "sublist ''=>'' ?u" by (rule sublist_order.order.trans)
    with lab(1) show False using sublist_snoc_space by blast
  qed
  have "firstLine ?str = ?u @ ''=>'' @ (CHR '' '' # tok @ ?v)"
    unfolding first by simp
  then have has: "sublist ''=>'' (firstLine ?str)"
    by (simp only: sublist_appendI)
  let ?w = "CHR '' '' # tok"
  have "TrimSpace (firstLine ?str) = u' @ ''=>'' @ (?w @ v')"
    using T by simp
  then have "Split (TrimSpace (firstLine ?str)) ''=>'' = u' # Split (?w @ v') ''=>''"
    by (simp only: Split_at_sep [OF nou])
  moreover have "Split (?w @ v') ''=>'' \<noteq> []" by (rule Split_nonempty) simp
  ultimately have piece: "Split (TrimSpace (firstLine ?str)) ''=>'' ! 1 = hd (Split (?w @ v') ''=>'')"
    by (simp add: hd_conv_nth)
  have "CHR ''='' \<notin> set ?w" using solid by auto
  from hd_Split_skip [OF this, of v'] obtain p where
    p: "hd (Split (?w @ v') ''=>'') = ?w @ p" "prefix p v'" by blast
  have "TrimLeftSpace (?w @ p) = tok @ p"
    using tok(1) solid by (simp add: TrimLeft_space TrimLeft_solid)
  moreover from TrimRight_middle [of tok "[]" p] tok(1) solid obtain p' where
    p': "TrimRightSpace (tok @ p) = tok @ p'" "prefix p' p" by auto
  ultimately have trim: "TrimSpace (?w @ p) = tok @ p'" by (simp add: TrimSpace_def)
  from p' p(2) v' have "prefix p' ?v" by (meson prefix_order.trans)
  then have "takeWhile (\<lambda>x. x \<noteq> CHR '' '') p' = []" by (rule prefix_space)
  with nosp have "takeWhile (\<lambda>x. x \<noteq> CHR '' '') (tok @ p') = tok"
    by simp
  then have "Split (tok @ p') '' '' ! 0 = tok" by (simp add: Split_first_char)
  with has piece p(1) trim show ?thesis by (simp add: valueToken_eq)
qed

text \<open>
  For a vector whose first sample has no separator and no newline in its labels, the
  value token is the value of that sample.
\<close>

lemma valueToken_joinRows:
  assumes "\<not> sublist ''=>'' labels" and "CHR 0x0A \<notin> set labels"
    and "val \<noteq> []" and "\<forall>c \<in> set val. c \<notin> spaceBytes \<and> c \<noteq> CHR ''=''"
  shows "valueToken (joinRows (sampleRow labels val ts # rows)) = Inr val"
proof -
  obtain rest where "joinRows (sampleRow labels val ts # rows) =
      labels @ '' => '' @ val @ '' '' @ rest"
    by (cases rows) (simp_all add: sampleRow_def)
  with valueToken_sample_row [OF assms, of rest] show ?thesis by simp
qed

lemma NodeMetricsAvg_sample_rows:
  assumes "N (apiConfig p) = (c, None)"
    and "res (Q c (queryStr promCpuUsageAvg per n)) =
           Some \<lparr>Type = ValVector, String = joinRows (sampleRow l1 v1 t1 # rows1)\<rparr>"
    and "res (Q c (queryStr promMemUsageAvg per n)) =
           Some \<lparr>Type = ValVector, String = joinRows (sampleRow l2 v2 t2 # rows2)\<rparr>"
    and "\<not> sublist ''=>'' l1" and "CHR 0x0A \<notin> set l1" and "v1 \<noteq> []"
    and "set v1 \<subseteq> set valueChars"
    and "\<not> sublist ''=>'' l2" and "CHR 0x0A \<notin> set l2" and "v2 \<noteq> []"
    and "set v2 \<subseteq> set valueChars"
  shows "\<exists>lg. NodeMetricsAvg N Q syn p n per =
     Return (Some \<lparr>Cpu = fst (ParseFloat syn v1), Memory = fst (ParseFloat syn v2)\<rparr>) None lg"
proof -
  have ne: "joinRows (sampleRow l v t # rows) \<noteq> []" for l v t rows
    by (cases rows) (simp_all add: sampleRow_def)
  have solid: "\<forall>c \<in> set v. c \<notin> spaceBytes \<and> c \<noteq> CHR ''=''" if "set v \<subseteq> set valueChars" for v
    using that valueChars_solid by blast
  have "metricField syn (Q c (queryStr promCpuUsageAvg per n)) = Inr (fst (ParseFloat syn v1))"
    using assms by (simp add: metricField_def ne valueToken_joinRows solid)
  moreover have
    "metricField syn (Q c (queryStr promMemUsageAvg per n)) = Inr (fst (ParseFloat syn v2))"
    using assms by (simp add: metricField_def ne valueToken_joinRows solid)
  ultimately show ?thesis
    using assms(1) by (simp add: NodeMetricsAvg_eq)
qed


section \<open>A label value with the separator of the row\<close>

text \<open>
  C3. Where the labels of the first row have no separator the fields are the parsed
  values (\<open>NodeMetricsAvg_sample_rows\<close>). Here the backend answers the CPU query
  with one valid sample, of value \<^verbatim>\<open>0.5\<close>, that has a label value \<^verbatim>\<open>a=>b\<close>, and
  the memory query with a sample of value \<^verbatim>\<open>0.25\<close>. The token that the client
  parses for the CPU is taken from the label, not from the value: the call returns the
  CPU field zero, not one half.
\<close>

theorem C3_separator_in_label:
  "res exLabelled =
     Some \<lparr>Type = ValVector,
           String = joinRows [sampleRow ''cpu_usage_avg_5m{instance=\"worker-1\", note=\"a=>b\"}''
                                ''0.5'' ''[1700000000]'']\<rparr> \<and>
   exSyntax ''0.5'' = Parsed (1 / 2) \<and>
   valueToken ''cpu_usage_avg_5m{instance=\"worker-1\", note=\"a=>b\"} => 0.5 @[1700000000]'' =
     Inr ''b\"}'' \<and>
   NodeMetricsAvg exNewClient (exQuery exLabelled exMem) exSyntax exClient ''worker-1'' ''5m'' =
     Return (Some \<lparr>Cpu = 0, Memory = 1 / 4\<rparr>) None
       [InfoGetNodeMetrics ''http://prometheus:9090'',
        InfoQueryBy ''cpu_usage_avg_5m{instance=\"worker-1\"}'',
        InfoQueryBy ''mem_usage_avg_5m{instance=\"worker-1\"}'']"
proof -
  have "res exLabelled =
     Some \<lparr>Type = ValVector,
           String = joinRows [sampleRow ''cpu_usage_avg_5m{instance=\"worker-1\", note=\"a=>b\"}''
                                ''0.5'' ''[1700000000]'']\<rparr>"
    by (simp add: exLabelled_def vector_def sampleRow_def)
  moreover have
    "NodeMetricsAvg exNewClient (exQuery exLabelled exMem) exSyntax exClient ''worker-1'' ''5m'' =
     Return (Some \<lparr>Cpu = 0, Memory = 1 / 4\<rparr>) None
       [InfoGetNodeMetrics ''http://prometheus:9090'',
        InfoQueryBy (queryStr promCpuUsageAvg ''5m'' ''worker-1''),
        InfoQueryBy (queryStr promMemUsageAvg ''5m'' ''worker-1'')]"
    by (simp add: ex_call metricField_exLabelled queryLog_exLabelled)
  ultimately show ?thesis
    by (simp only: queryStr_cpu_ex queryStr_mem_ex valueToken_exLabelled) (simp add: exSyntax_def)
qed

section \<open>A query that fails\<close>

text \<open>
  C4, as amended. When the client is constructed and the query of one metric fails
  and returns no result, the failure does not end the call: the error is logged, the
  field of that metric is zero, and the call goes on with the other metric, whose field
  is the one that its own query result decides.
\<close>

theorem C4_failed_query_skipped:
  assumes "N (apiConfig p) = (c, None)"
  shows
    "(err (Q c (queryStr promCpuUsageAvg per n)) = Some e \<and>
      res (Q c (queryStr promCpuUsageAvg per n)) = None \<longrightarrow>
      ErrorQuerying e \<in> set (queryLog (queryStr promCpuUsageAvg per n)
                                 (Q c (queryStr promCpuUsageAvg per n))) \<and>
      NodeMetricsAvg N Q syn p n per =
        (case metricField syn (Q c (queryStr promMemUsageAvg per n)) of
           Inl pn \<Rightarrow> Panic pn
         | Inr y \<Rightarrow>
             Return (Some \<lparr>Cpu = 0, Memory = y\<rparr>) None
               (InfoGetNodeMetrics (address p) #
                queryLog (queryStr promCpuUsageAvg per n) (Q c (queryStr promCpuUsageAvg per n)) @
                queryLog (queryStr promMemUsageAvg per n) (Q c (queryStr promMemUsageAvg per n))))) \<and>
     (err (Q c (queryStr promMemUsageAvg per n)) = Some e \<and>
      res (Q c (queryStr promMemUsageAvg per n)) = None \<longrightarrow>
      ErrorQuerying e \<in> set (queryLog (queryStr promMemUsageAvg per n)
                                 (Q c (queryStr promMemUsageAvg per n))) \<and>
      NodeMetricsAvg N Q syn p n per =
        (case metricField syn (Q c (queryStr promCpuUsageAvg per n)) of
           Inl pn \<Rightarrow> Panic pn
         | Inr x \<Rightarrow>
             Return (Some \<lparr>Cpu = x, Memory = 0\<rparr>) None
               (InfoGetNodeMetrics (address p) #
                queryLog (queryStr promCpuUsageAvg per n) (Q c (queryStr promCpuUsageAvg per n)) @
                queryLog (queryStr promMemUsageAvg per n) (Q c (queryStr promMemUsageAvg per n)))))"
  using assms
  by (auto simp: NodeMetricsAvg_eq metricField_def queryLog_def split: sum.splits)

theorem C4_witness:
  "exNewClient (apiConfig exClient) = ((), None) \<and>
   err exFailed = Some ''context deadline exceeded'' \<and> res exFailed = None \<and>
   NodeMetricsAvg exNewClient (exQuery exFailed exMem) exSyntax exClient ''worker-1'' ''5m'' =
     Return (Some \<lparr>Cpu = 0, Memory = 1 / 4\<rparr>) None
       [InfoGetNodeMetrics ''http://prometheus:9090'',
        InfoQueryBy ''cpu_usage_avg_5m{instance=\"worker-1\"}'',
        ErrorQuerying ''context deadline exceeded'',
        WarningNoDataFound ''cpu_usage_avg_5m{instance=\"worker-1\"}'',
        InfoQueryBy ''mem_usage_avg_5m{instance=\"worker-1\"}''] \<and>
   NodeMetricsAvg exNewClient (exQuery exCpu exFailed) exSyntax exClient ''worker-1'' ''5m'' =
     Return (Some \<lparr>Cpu = 1 / 2, Memory = 0\<rparr>) None
       [InfoGetNodeMetrics ''http://prometheus:9090'',
        InfoQueryBy ''cpu_usage_avg_5m{instance=\"worker-1\"}'',
        InfoQueryBy ''mem_usage_avg_5m{instance=\"worker-1\"}'',
        ErrorQuerying ''context deadline exceeded'',
        WarningNoDataFound ''mem_usage_avg_5m{instance=\"worker-1\"}'']"
  using C4_failed_query_skipped [of exNewClient exClient "()" "exQuery exFailed exMem"
      "''5m''" "''worker-1''" "''context deadline exceeded''" exSyntax]
    C4_failed_query_skipped [of exNewClient exClient "()" "exQuery exCpu exFailed"
      "''5m''" "''worker-1''" "''context deadline exceeded''" exSyntax]
  by (simp add: exFailed_sel ex_logs exQuery_def)

text \<open>
  The claim as it was stated fails: a CPU query that returns an error together with a
  vector leaves the CPU field at the value of the vector, not at zero.
\<close>

theorem C4_counterexample:
  "err exPartial \<noteq> None \<and>
   NodeMetricsAvg exNewClient (exQuery exPartial exMem) exSyntax exClient ''worker-1'' ''5m'' =
     Return (Some \<lparr>Cpu = 1 / 2, Memory = 1 / 4\<rparr>) None
       [InfoGetNodeMetrics ''http://prometheus:9090'',
        InfoQueryBy ''cpu_usage_avg_5m{instance=\"worker-1\"}'',
        ErrorQuerying ''strconv.ParseFloat: parsing \"bad\": invalid syntax'',
        InfoQueryBy ''mem_usage_avg_5m{instance=\"worker-1\"}'']"
proof -
  have "err exPartial \<noteq> None" by (simp add: exPartial_def)
  moreover have
    "NodeMetricsAvg exNewClient (exQuery exPartial exMem) exSyntax exClient ''worker-1'' ''5m'' =
     Return (Some \<lparr>Cpu = 1 / 2, Memory = 1 / 4\<rparr>) None
       [InfoGetNodeMetrics ''http://prometheus:9090'',
        InfoQueryBy (queryStr promCpuUsageAvg ''5m'' ''worker-1''),
        ErrorQuerying ''strconv.ParseFloat: parsing \"bad\": invalid syntax'',
        InfoQueryBy (queryStr promMemUsageAvg ''5m'' ''worker-1'')]"
    by (simp add: ex_call metricField_exPartial queryLog_exPartial)
  ultimately show ?thesis by (simp only: queryStr_cpu_ex queryStr_mem_ex) simp
qed

section \<open>Results with nothing to parse\<close>

text \<open>
  C5. When the client is constructed and the result of the query of a metric is nil,
  renders to the empty string or is not a vector, the field of that metric is zero in
  the record that the call returns; the call itself goes on as the result of the other
  query decides.
\<close>

theorem C5_no_vector_leaves_zero:
  assumes "N (apiConfig p) = (c, None)"
  shows
    "(noVector (Q c (queryStr promCpuUsageAvg per n)) \<longrightarrow>
      NodeMetricsAvg N Q syn p n per =
        (case metricField syn (Q c (queryStr promMemUsageAvg per n)) of
           Inl pn \<Rightarrow> Panic pn
         | Inr y \<Rightarrow>
             Return (Some \<lparr>Cpu = 0, Memory = y\<rparr>) None
               (InfoGetNodeMetrics (address p) #
                queryLog (queryStr promCpuUsageAvg per n) (Q c (queryStr promCpuUsageAvg per n)) @
                queryLog (queryStr promMemUsageAvg per n) (Q c (queryStr promMemUsageAvg per n))))) \<and>
     (noVector (Q c (queryStr promMemUsageAvg per n)) \<longrightarrow>
      NodeMetricsAvg N Q syn p n per =
        (case metricField syn (Q c (queryStr promCpuUsageAvg per n)) of
           Inl pn \<Rightarrow> Panic pn
         | Inr x \<Rightarrow>
             Return (Some \<lparr>Cpu = x, Memory = 0\<rparr>) None
               (InfoGetNodeMetrics (address p) #
                queryLog (queryStr promCpuUsageAvg per n) (Q c (queryStr promCpuUsageAvg per n)) @
                queryLog (queryStr promMemUsageAvg per n) (Q c (queryStr promMemUsageAvg per n)))))"
proof -
  have "metricField syn r = Inr 0" if "noVector r" for r
    using that by (auto simp: noVector_def metricField_def split: option.splits)
  with assms show ?thesis
    by (auto simp: NodeMetricsAvg_eq split: sum.splits)
qed

theorem C5_witness:
  "exNewClient (apiConfig exClient) = ((), None) \<and>
   noVector exNil \<and> noVector exEmpty \<and> noVector exScalar \<and>
   NodeMetricsAvg exNewClient (exQuery exNil exMem) exSyntax exClient ''worker-1'' ''5m'' =
     Return (Some \<lparr>Cpu = 0, Memory = 1 / 4\<rparr>) None
       [InfoGetNodeMetrics ''http://prometheus:9090'',
        InfoQueryBy ''cpu_usage_avg_5m{instance=\"worker-1\"}'',
        WarningNoDataFound ''cpu_usage_avg_5m{instance=\"worker-1\"}'',
        InfoQueryBy ''mem_usage_avg_5m{instance=\"worker-1\"}''] \<and>
   NodeMetricsAvg exNewClient (exQuery exCpu exEmpty) exSyntax exClient ''worker-1'' ''5m'' =
     Return (Some \<lparr>Cpu = 1 / 2, Memory = 0\<rparr>) None
       [InfoGetNodeMetrics ''http://prometheus:9090'',
        InfoQueryBy ''cpu_usage_avg_5m{instance=\"worker-1\"}'',
        InfoQueryBy ''mem_usage_avg_5m{instance=\"worker-1\"}'',
        WarningNoDataFound ''mem_usage_avg_5m{instance=\"worker-1\"}''] \<and>
   NodeMetricsAvg exNewClient (exQuery exScalar exMem) exSyntax exClient ''worker-1'' ''5m'' =
     Return (Some \<lparr>Cpu = 0, Memory = 1 / 4\<rparr>) None
       [InfoGetNodeMetrics ''http://prometheus:9090'',
        InfoQueryBy ''cpu_usage_avg_5m{instance=\"worker-1\"}'',
        InfoQueryBy ''mem_usage_avg_5m{instance=\"worker-1\"}'']"
  using C5_no_vector_leaves_zero [of exNewClient exClient "()" "exQuery exNil exMem"
      "''5m''" "''worker-1''" exSyntax]
    C5_no_vector_leaves_zero [of exNewClient exClient "()" "exQuery exCpu exEmpty"
      "''5m''" "''worker-1''" exSyntax]
    C5_no_vector_leaves_zero [of exNewClient exClient "()" "exQuery exScalar exMem"
      "''5m''" "''worker-1''" exSyntax]
  by (simp add: noVector_ex ex_logs exQuery_def)

section \<open>A value token that is no number\<close>




section \<open>Construction\<close>

text \<open>
  C7, as amended. \<^verbatim>\<open>NewPrometheusMetricsClient\<close> returns the client and a nil error
  for every address. An address that \<^verbatim>\<open>api.NewClient\<close> does not accept shows at the
  call of \<^verbatim>\<open>NodeMetricsAvg\<close> on that client, which returns the error of
  \<^verbatim>\<open>api.NewClient\<close> and no record.
\<close>

theorem C7_error_at_first_call:
  "NewPrometheusMetricsClient a cf = (\<lparr>address = a, conf = cf\<rparr>, None) \<and>
   (snd (N (apiConfig \<lparr>address = a, conf = cf\<rparr>)) = Some e \<longrightarrow>
    NodeMetricsAvg N Q syn \<lparr>address = a, conf = cf\<rparr> n per =
      Return None (Some e) [InfoGetNodeMetrics a])"
  by (auto simp: NewPrometheusMetricsClient_def NodeMetricsAvg_eq split: prod.splits)

theorem C7_witness:
  "snd (exNewClient (apiConfig \<lparr>address = ''://'', conf = Map.empty\<rparr>)) =
     Some ''parse \"://\": missing protocol scheme'' \<and>
   NewPrometheusMetricsClient ''://'' Map.empty =
     (\<lparr>address = ''://'', conf = Map.empty\<rparr>, None) \<and>
   NodeMetricsAvg exNewClient (exQuery exCpu exMem) exSyntax
       \<lparr>address = ''://'', conf = Map.empty\<rparr> ''worker-1'' ''5m'' =
     Return None (Some ''parse \"://\": missing protocol scheme'') [InfoGetNodeMetrics ''://'']"
proof -
  have e: "snd (exNewClient (apiConfig \<lparr>address = ''://'', conf = Map.empty\<rparr>)) =
     Some ''parse \"://\": missing protocol scheme''"
    by (simp add: exNewClient_def apiConfig_def)
  with C7_error_at_first_call [of "''://''" Map.empty exNewClient
      "''parse \"://\": missing protocol scheme''" "exQuery exCpu exMem" exSyntax
      "''worker-1''" "''5m''"]
  show ?thesis by simp
qed

text \<open>
  The claim as it was stated fails: the construction of a metrics client with the
  address \<^verbatim>\<open>://\<close>, which the backend client constructor rejects, returns a nil error.
\<close>

theorem C7_counterexample:
  "snd (exNewClient (apiConfig (fst (NewPrometheusMetricsClient ''://'' Map.empty)))) =
     Some ''parse \"://\": missing protocol scheme'' \<and>
   snd (NewPrometheusMetricsClient ''://'' Map.empty) = None"
  by (simp add: NewPrometheusMetricsClient_def exNewClient_def apiConfig_def)

section \<open>The fields of a returned record\<close>

text \<open>
  C8. Where the metric text of the first row has no separator each field is the parsed
  value of its row (\<open>NodeMetricsAvg_sample_rows\<close>), and it is zero where there is
  nothing to parse (C5). Here the backend answers the CPU query with one valid sample,
  of value \<^verbatim>\<open>0.5\<close>, that has a label value with the separator followed by
  \<^verbatim>\<open>7\<close>: the CPU field of the returned record is seven, a number parsed from a piece
  of a label, which is neither the value of the sample nor zero.
\<close>

theorem C8_label_fragment_parsed:
  "res exLabelNumber =
     Some \<lparr>Type = ValVector,
           String = joinRows [sampleRow ''cpu_usage_avg_5m{instance=\"worker-1\", note=\"a=> 7 \"}''
                                ''0.5'' ''[1700000000]'']\<rparr> \<and>
   exSyntax64 ''0.5'' = Parsed (Num (1 / 2)) \<and>
   valueToken ''cpu_usage_avg_5m{instance=\"worker-1\", note=\"a=> 7 \"} => 0.5 @[1700000000]'' =
     Inr ''7'' \<and>
   NodeMetricsAvg exNewClient (exQuery exLabelNumber exMem) exSyntax64 exClient ''worker-1'' ''5m'' =
     Return (Some \<lparr>Cpu = Num 7, Memory = Num (1 / 4)\<rparr>) None
       [InfoGetNodeMetrics ''http://prometheus:9090'',
        InfoQueryBy ''cpu_usage_avg_5m{instance=\"worker-1\"}'',
        InfoQueryBy ''mem_usage_avg_5m{instance=\"worker-1\"}''] \<and>
   Num 7 \<noteq> Num (1 / 2) \<and> Num 7 \<noteq> (0 :: float64)"
proof -
  have a: "res exLabelNumber =
     Some \<lparr>Type = ValVector,
           String = joinRows [sampleRow ''cpu_usage_avg_5m{instance=\"worker-1\", note=\"a=> 7 \"}''
                                ''0.5'' ''[1700000000]'']\<rparr>"
    by (simp add: exLabelNumber_def vector_def sampleRow_def)
  have b: "NodeMetricsAvg exNewClient (exQuery exLabelNumber exMem) exSyntax64 exClient
       ''worker-1'' ''5m'' =
     Return (Some \<lparr>Cpu = Num 7, Memory = Num (1 / 4)\<rparr>) None
       [InfoGetNodeMetrics ''http://prometheus:9090'',
        InfoQueryBy (queryStr promCpuUsageAvg ''5m'' ''worker-1''),
        InfoQueryBy (queryStr promMemUsageAvg ''5m'' ''worker-1'')]"
    by (simp add: ex_call metricField64_exMem metricField64_exLabelNumber queryLog_ex64)
  have d: "Num 7 \<noteq> Num (1 / 2)" "Num 7 \<noteq> (0 :: float64)"
    by (simp_all add: zero_float64_def)
  from a b d exSyntax64_ex valueToken_exLabelNumber show ?thesis
    by (simp only: queryStr_cpu_ex queryStr_mem_ex) simp
qed


section \<open>The row format and the bounds of the splits\<close>

lemma loopBody_vector:
  assumes "res (Q (queryStr metric per n)) = Some v" and "String v \<noteq> []"
    and "Type v = ValVector" and "metric = promCpuUsageAvg \<or> metric = promMemUsageAvg"
  shows "(\<exists>s'. loopBody Q syn n per metric s = Inr s') \<longleftrightarrow>
    (\<exists>tok. valueToken (String v) = Inr tok)"
  using assms
  by (auto simp: loopBody_def valueToken_def Let_def split: sum.splits)

text \<open>
  C9. The reads \<^verbatim>\<open>rowValues[1]\<close> and \<^verbatim>\<open>value[0]\<close> are in bounds if and only if
  the first line of the rendering has the separator \<^verbatim>\<open>=>\<close>; without it the read of
  \<^verbatim>\<open>rowValues[1]\<close> is out of range, index 1 with length 1. So, for a result that is a
  vector with a rendering that is not empty, the iteration of its metric ends without
  a panic exactly when the first line has the separator; and there is a rendering that
  is not empty and panics.
\<close>

theorem C9_in_bounds_iff_separator:
  "((\<exists>tok. valueToken str = Inr tok) \<longleftrightarrow> sublist ''=>'' (firstLine str)) \<and>
   (\<not> sublist ''=>'' (firstLine str) \<longrightarrow> rowValue str = Inl (IndexOutOfRange 1 1)) \<and>
   (res (Q (queryStr metric per n)) = Some v \<and> String v \<noteq> [] \<and> Type v = ValVector \<and>
    (metric = promCpuUsageAvg \<or> metric = promMemUsageAvg) \<longrightarrow>
      ((\<exists>s'. loopBody Q syn n per metric s = Inr s') \<longleftrightarrow>
         sublist ''=>'' (firstLine (String v)))) \<and>
   (\<exists>r. r \<noteq> [] \<and> \<not> sublist ''=>'' (firstLine r) \<and> rowValue r = Inl (IndexOutOfRange 1 1))"
proof -
  have a: "(\<exists>tok. valueToken s = Inr tok) \<longleftrightarrow> sublist ''=>'' (firstLine s)" for s
    by (simp add: valueToken_eq)
  have b: "rowValue s = Inl (IndexOutOfRange 1 1)" if "\<not> sublist ''=>'' (firstLine s)" for s
  proof -
    from that have "Split (TrimSpace (firstLine s)) ''=>'' = [TrimSpace (firstLine s)]"
      by (intro Split_no_sep) (simp_all add: sublist_TrimSpace)
    with that show ?thesis by (simp add: rowValue_eq)
  qed
  have c: "\<not> sublist ''=>'' (firstLine ''abc'')"
    unfolding firstLine_def by code_simp
  from b [OF c] c have d: "\<exists>r. r \<noteq> [] \<and> \<not> sublist ''=>'' (firstLine r) \<and>
      rowValue r = Inl (IndexOutOfRange 1 1)"
    by (intro exI [of _ "''abc''"]) simp
  from a b d show ?thesis
    using loopBody_vector [of Q metric per n v syn s] by blast
qed

theorem C9_witness:
  "firstLine ''{a=\"1\"} => 0.5 @[1]\<newline>no separator here'' = ''{a=\"1\"} => 0.5 @[1]'' \<and>
   valueToken ''{a=\"1\"} => 0.5 @[1]\<newline>no separator here'' = Inr ''0.5'' \<and>
   firstLine ''no separator here\<newline>{a=\"1\"} => 0.5 @[1]'' = ''no separator here'' \<and>
   rowValue ''no separator here\<newline>{a=\"1\"} => 0.5 @[1]'' = Inl (IndexOutOfRange 1 1)"
proof -
  have f1: "firstLine ''{a=\"1\"} => 0.5 @[1]\<newline>no separator here'' = ''{a=\"1\"} => 0.5 @[1]''"
    by (simp add: firstLine_def)
  have f2: "firstLine ''no separator here\<newline>{a=\"1\"} => 0.5 @[1]'' = ''no separator here''"
    by (simp add: firstLine_def)
  have s2: "\<not> sublist ''=>'' ''no separator here''" by code_simp
  have v: "valueToken ''{a=\"1\"} => 0.5 @[1]\<newline>no separator here'' = Inr ''0.5''"
    by code_simp
  from C9_in_bounds_iff_separator [THEN conjunct2, THEN conjunct1,
      of "''no separator here\<newline>{a=\"1\"} => 0.5 @[1]''"] f2 s2
  have "rowValue ''no separator here\<newline>{a=\"1\"} => 0.5 @[1]'' = Inl (IndexOutOfRange 1 1)"
    by simp
  with f1 f2 v show ?thesis by simp
qed

section \<open>The TLS option\<close>

text \<open>
  C10. The configuration that reaches \<^verbatim>\<open>api.NewClient\<close> skips the verification of
  certificates if and only if the option map has the key \<^verbatim>\<open>tls.insecureSkipVerify\<close>
  with the value \<^verbatim>\<open>true\<close>, exactly; with any other value, or without the key,
  verification stays on.
\<close>

theorem C10_insecure_skip_verify:
  "InsecureSkipVerify (TLSClientConfig (RoundTripper (apiConfig p))) \<longleftrightarrow>
     conf p ''tls.insecureSkipVerify'' = Some ''true''"
  by (simp add: apiConfig_def lookup_def split: option.splits)

end
